theory Spec2Isabelle
  imports Complex_Main "HOL-Library.AList"
begin

section \<open>Errors raised by the parser, the analysis and the value layer\<close>

text \<open>
  Every Python exception that the modelled code can raise is a value of \<open>error\<close>;
  a fallible function returns \<open>error + 'a\<close> with \<open>Inl\<close> for the raise.
\<close>

datatype error =
    AttributeError string
  | TypeError string
  | DuplicateNames "string list"
  | RunTimeVectors "string list"
  | UnboundVariable string
  | ValidationError string
  | EvaluationError string

section \<open>The waveform IR\<close>

text \<open>
  A scalar of the IR is a literal decimal or a named free variable; calling it with an
  assignment (\<open>ast.stop(**self.assignments)\<close>) evaluates it.  Python's \<open>Decimal\<close> is
  modelled by exact rationals.
\<close>

datatype scalar = Literal rat | Variable string

type_synonym assignment = "(string \<times> rat) list"

text \<open>
  Modelled from the spec: the call operator of a scalar expression (module
  \<open>bloqade.ir.scalar\<close>) is absent from the sources; an unresolved free variable is an
  evaluation failure.
\<close>

fun scalar_call :: "scalar \<Rightarrow> assignment \<Rightarrow> error + rat" where
  "scalar_call (Literal v) a = Inr v"
| "scalar_call (Variable x) a =
     (case map_of a x of None \<Rightarrow> Inl (UnboundVariable x) | Some v \<Rightarrow> Inr v)"

datatype interpolation = InterpolationLinear | InterpolationConstant

datatype waveform =
    Constant scalar scalar
  | Linear scalar scalar scalar
  | Poly "scalar list" scalar
  | PythonFn string scalar
  | Append "waveform list"
  | Add waveform waveform
  | AlignedWaveform waveform string
  | Negative waveform
  | Record waveform string
  | Sample waveform interpolation scalar
  | Scale waveform scalar
  | Slice waveform "scalar option" "scalar option"
  | Smooth waveform string

fun sequence_sum :: "(error + rat) list \<Rightarrow> error + rat" where
  "sequence_sum [] = Inr 0"
| "sequence_sum (x # xs) =
     (case x of Inl e \<Rightarrow> Inl e
      | Inr d \<Rightarrow> (case sequence_sum xs of Inl e \<Rightarrow> Inl e | Inr s \<Rightarrow> Inr (d + s)))"

text \<open>
  Modelled from the spec: the \<open>duration\<close> of each waveform variant (module
  \<open>bloqade.ir.control.waveform\<close>) is absent from the sources.  A leaf carries its own
  duration, \<open>Append\<close> concatenates in time, \<open>Add\<close> spans the longer operand, a slice
  spans its interval and the unary wrappers keep the duration of what they wrap.
\<close>

fun duration :: "waveform \<Rightarrow> assignment \<Rightarrow> error + rat" where
  "duration (Constant v d) a = scalar_call d a"
| "duration (Linear s e d) a = scalar_call d a"
| "duration (Poly cs d) a = scalar_call d a"
| "duration (PythonFn f d) a = scalar_call d a"
| "duration (Append ws) a = sequence_sum (map (\<lambda>w. duration w a) ws)"
| "duration (Add l r) a =
     (case duration l a of Inl e \<Rightarrow> Inl e
      | Inr dl \<Rightarrow> (case duration r a of Inl e \<Rightarrow> Inl e | Inr dr \<Rightarrow> Inr (max dl dr)))"
| "duration (AlignedWaveform w al) a = duration w a"
| "duration (Negative w) a = duration w a"
| "duration (Record w n) a = duration w a"
| "duration (Sample w i dt) a = duration w a"
| "duration (Scale w k) a = duration w a"
| "duration (Slice w start stop) a =
     (case (case start of None \<Rightarrow> Inr 0 | Some s \<Rightarrow> scalar_call s a) of Inl e \<Rightarrow> Inl e
      | Inr lo \<Rightarrow>
        (case (case stop of None \<Rightarrow> duration w a | Some s \<Rightarrow> scalar_call s a) of
           Inl e \<Rightarrow> Inl e
         | Inr hi \<Rightarrow> Inr (hi - lo)))"
| "duration (Smooth w k) a = duration w a"

text \<open>
  The value of a waveform at a time (\<open>eval_decimal\<close>) belongs to the same absent module.
  The analysis only ever calls it once, at the end time, so it is a parameter of the
  analysis: every theorem below holds for every value function.
\<close>

type_synonym eval_fn = "waveform \<Rightarrow> rat \<Rightarrow> assignment \<Rightarrow> error + rat"

section \<open>\<open>IsConstantWaveform\<close>\<close>

record IsConstantWaveformResult =
  is_constant :: bool
  constant_waveform :: waveform

text \<open>
  The tail of \<open>emit\<close> after \<open>self.visit(ast)\<close>: the duration, the value at the end
  time and the packaged \<open>Constant\<close>.
\<close>

definition emit_result :: "eval_fn \<Rightarrow> assignment \<Rightarrow> waveform \<Rightarrow> bool \<Rightarrow> error + IsConstantWaveformResult" where
  "emit_result ev a ast c =
     (case duration ast a of Inl e \<Rightarrow> Inl e
      | Inr d \<Rightarrow>
        (case ev ast d a of Inl e \<Rightarrow> Inl e
         | Inr v \<Rightarrow> Inr \<lparr>is_constant = c, constant_waveform = Constant (Literal v) (Literal d)\<rparr>))"

fun eval_coeffs :: "scalar list \<Rightarrow> assignment \<Rightarrow> error + rat list" where
  "eval_coeffs [] a = Inr []"
| "eval_coeffs (c # cs) a =
     (case scalar_call c a of Inl e \<Rightarrow> Inl e
      | Inr v \<Rightarrow> (case eval_coeffs cs a of Inl e \<Rightarrow> Inl e | Inr vs \<Rightarrow> Inr (v # vs)))"

text \<open>
  \<open>visit ev a c ast\<close> is \<open>self.visit(ast)\<close> on a visitor whose \<open>is_constant\<close> is \<open>c\<close>;
  it returns the new \<open>is_constant\<close>.  \<open>visit_append_loop\<close> is the \<open>for\<close> loop of
  \<open>visit_append\<close>, carrying \<open>self.is_constant\<close> and the local \<open>value\<close>; each part is
  analysed by a fresh visitor (\<open>is_constant = True\<close>) through \<open>emit\<close>.
\<close>

fun visit :: "eval_fn \<Rightarrow> assignment \<Rightarrow> bool \<Rightarrow> waveform \<Rightarrow> error + bool"
and visit_append_loop :: "eval_fn \<Rightarrow> assignment \<Rightarrow> bool \<Rightarrow> scalar option \<Rightarrow> waveform list \<Rightarrow> error + bool"
where
  "visit ev a c (Constant v d) = Inr c"
| "visit ev a c (Linear start stop d) =
     (case scalar_call stop a of Inl e \<Rightarrow> Inl e
      | Inr e' \<Rightarrow>
        (case scalar_call start a of Inl e \<Rightarrow> Inl e
         | Inr s' \<Rightarrow> Inr (c \<and> e' - s' = 0)))"
| "visit ev a c (Poly coeffs d) =
     (case eval_coeffs coeffs a of Inl e \<Rightarrow> Inl e
      | Inr cs \<Rightarrow> Inr (if \<exists>x \<in> set (tl cs). x \<noteq> 0 then False else c))"
| "visit ev a c (PythonFn f d) = Inr False"
| "visit ev a c (Append ws) = visit_append_loop ev a c None ws"
| "visit ev a c (Add l r) =
     (case duration l a of Inl e \<Rightarrow> Inl e
      | Inr left_duration \<Rightarrow>
        (case duration r a of Inl e \<Rightarrow> Inl e
         | Inr right_duration \<Rightarrow>
           if left_duration \<noteq> right_duration then Inr False
           else (case visit ev a c l of Inl e \<Rightarrow> Inl e | Inr c' \<Rightarrow> visit ev a c' r)))"
| "visit ev a c (AlignedWaveform w al) = visit ev a c w"
| "visit ev a c (Negative w) = visit ev a c w"
| "visit ev a c (Record w n) = visit ev a c w"
| "visit ev a c (Sample w i dt) = visit ev a c w"
| "visit ev a c (Scale w k) = visit ev a c w"
| "visit ev a c (Slice w start stop) = visit ev a c w"
| "visit ev a c (Smooth w k) = visit ev a c w"
| "visit_append_loop ev a c val [] = Inr c"
| "visit_append_loop ev a c val (w # ws) =
     (case visit ev a True w of Inl e \<Rightarrow> Inl e
      | Inr rc \<Rightarrow>
        (case emit_result ev a w rc of Inl e \<Rightarrow> Inl e
         | Inr result \<Rightarrow>
           (case constant_waveform result of
              Constant rv rd \<Rightarrow>
                (let val' = (case val of None \<Rightarrow> rv | Some x \<Rightarrow> x);
                     c' = ((c \<and> is_constant result) \<and> rv = val')
                 in if \<not> c' then Inr c' else visit_append_loop ev a c' (Some val') ws)
            | _ \<Rightarrow> Inl (AttributeError ''value''))))"

definition emit :: "eval_fn \<Rightarrow> assignment \<Rightarrow> waveform \<Rightarrow> error + IsConstantWaveformResult" where
  "emit ev a ast =
     (case visit ev a True ast of Inl e \<Rightarrow> Inl e | Inr c \<Rightarrow> emit_result ev a ast c)"


text \<open>
  Modelled from the spec: \<open>eval_decimal\<close>, the value of a waveform at a time, of the
  absent module \<open>bloqade.ir.control.waveform\<close>, for the variants whose value the spec
  determines: the leaves \<open>Constant\<close>, \<open>Linear\<close> and \<open>Poly\<close> (zero after their
  duration), sequential concatenation, the pointwise sum, and the wrappers that negate,
  scale, tag or crop.  Alignment, sampling, smoothing and user functions have numerics the
  spec does not describe; here they are evaluation errors.  Only the concrete examples use
  this function.
\<close>

fun eval_decimal :: "waveform \<Rightarrow> rat \<Rightarrow> assignment \<Rightarrow> error + rat"
and eval_decimal_append :: "waveform list \<Rightarrow> rat \<Rightarrow> rat \<Rightarrow> assignment \<Rightarrow> error + rat"
where
  "eval_decimal (Constant v d) t a =
     (case scalar_call d a of Inl e \<Rightarrow> Inl e
      | Inr d' \<Rightarrow> if t > d' then Inr 0 else scalar_call v a)"
| "eval_decimal (Linear start stop d) t a =
     (case scalar_call d a of Inl e \<Rightarrow> Inl e
      | Inr d' \<Rightarrow>
        if t > d' then Inr 0
        else (case scalar_call start a of Inl e \<Rightarrow> Inl e
              | Inr s' \<Rightarrow>
                (case scalar_call stop a of Inl e \<Rightarrow> Inl e
                 | Inr e' \<Rightarrow>
                   if d' = 0 then Inl (EvaluationError ''division by zero'')
                   else Inr (((e' - s') / d') * t + s'))))"
| "eval_decimal (Poly coeffs d) t a =
     (case scalar_call d a of Inl e \<Rightarrow> Inl e
      | Inr d' \<Rightarrow>
        if t > d' then Inr 0
        else (case eval_coeffs coeffs a of Inl e \<Rightarrow> Inl e
              | Inr cs \<Rightarrow> Inr (foldr (\<lambda>c acc. c + t * acc) cs 0)))"
| "eval_decimal (PythonFn f d) t a = Inl (EvaluationError ''python function'')"
| "eval_decimal (Append ws) t a = eval_decimal_append ws 0 t a"
| "eval_decimal (Add l r) t a =
     (case eval_decimal l t a of Inl e \<Rightarrow> Inl e
      | Inr x \<Rightarrow> (case eval_decimal r t a of Inl e \<Rightarrow> Inl e | Inr y \<Rightarrow> Inr (x + y)))"
| "eval_decimal (AlignedWaveform w al) t a = Inl (EvaluationError ''aligned'')"
| "eval_decimal (Negative w) t a =
     (case eval_decimal w t a of Inl e \<Rightarrow> Inl e | Inr x \<Rightarrow> Inr (- x))"
| "eval_decimal (Record w n) t a = eval_decimal w t a"
| "eval_decimal (Sample w i dt) t a = Inl (EvaluationError ''sample'')"
| "eval_decimal (Scale w k) t a =
     (case scalar_call k a of Inl e \<Rightarrow> Inl e
      | Inr k' \<Rightarrow> (case eval_decimal w t a of Inl e \<Rightarrow> Inl e | Inr x \<Rightarrow> Inr (k' * x)))"
| "eval_decimal (Slice w start stop) t a =
     (case (case start of None \<Rightarrow> Inr 0 | Some s \<Rightarrow> scalar_call s a) of Inl e \<Rightarrow> Inl e
      | Inr lo \<Rightarrow> eval_decimal w (t + lo) a)"
| "eval_decimal (Smooth w k) t a = Inl (EvaluationError ''smooth'')"
| "eval_decimal_append [] append_time t a = Inr 0"
| "eval_decimal_append (w # ws) append_time t a =
     (case duration w a of Inl e \<Rightarrow> Inl e
      | Inr d \<Rightarrow>
        if t \<le> append_time + d then eval_decimal w (t - append_time) a
        else eval_decimal_append ws (append_time + d) t a)"

section \<open>Field, pulse, sequence and circuit\<close>

text \<open>
  The keys of the three dictionary levels.  A Python \<open>dict\<close> is an association list
  in insertion order; a well-formed one has distinct keys.  \<open>d.get(k, default)\<close> is
  \<open>map_of\<close>, \<open>d[k] = v\<close> is \<open>AList.update\<close>.
\<close>

datatype level_coupling = rydberg | hyperfine

datatype field_name = detuning | rabi_amplitude | rabi_phase

datatype scale_value = ScaleName string | ScaleList "scalar list"

datatype spatial_modulation =
    UniformModulation
  | ScaledLocations nat
  | RunTimeVector scale_value

type_synonym field = "(spatial_modulation \<times> waveform) list"
type_synonym pulse = "(field_name \<times> field) list"
type_synonym sequence = "(level_coupling \<times> pulse) list"

text \<open>
  Modelled from the spec: \<open>Field.add\<close> (module \<open>bloqade.ir.control.field\<close>) is absent
  from the sources.  Re-adding a key that is present merges the two waveforms with
  \<open>Add\<close>; a new key is inserted.
\<close>

fun field_add :: "field \<Rightarrow> field \<Rightarrow> field" where
  "field_add f [] = f"
| "field_add f ((sm, w) # other) =
     field_add
       (case map_of f sm of
          Some w0 \<Rightarrow> AList.update sm (Add w0 w) f
        | None \<Rightarrow> AList.update sm w f)
       other"

section \<open>\<open>IsConstantAnalogCircuit\<close>\<close>

text \<open>
  The visitor's running state is the pair of \<open>self.is_constant\<close> and \<open>self.duration\<close>
  (\<open>None\<close> until the first waveform); the rebuilt \<open>self.waveform\<close>, \<open>self.field\<close>,
  \<open>self.pulse\<close> and \<open>self.sequence\<close> are returned beside it.
\<close>

type_synonym circuit_visitor = "bool \<times> rat option"

definition visit_waveform :: "eval_fn \<Rightarrow> assignment \<Rightarrow> circuit_visitor \<Rightarrow> waveform \<Rightarrow> error + circuit_visitor \<times> waveform" where
  "visit_waveform ev a st ast =
     (case emit ev a ast of Inl e \<Rightarrow> Inl e
      | Inr result \<Rightarrow>
        (let c = (fst st \<and> is_constant result); w = constant_waveform result
         in case duration w a of Inl e \<Rightarrow> Inl e
            | Inr d \<Rightarrow>
              (case snd st of
                 None \<Rightarrow> Inr ((c, Some d), w)
               | Some d0 \<Rightarrow> Inr ((if d0 \<noteq> d then False else c, Some d0), w))))"

fun visit_field_loop :: "eval_fn \<Rightarrow> assignment \<Rightarrow> circuit_visitor \<Rightarrow> field \<Rightarrow> field \<Rightarrow> error + circuit_visitor \<times> field" where
  "visit_field_loop ev a st acc [] = Inr (st, acc)"
| "visit_field_loop ev a st acc ((sm, w) # drives) =
     (case visit_waveform ev a st w of Inl e \<Rightarrow> Inl e
      | Inr (st', w') \<Rightarrow> visit_field_loop ev a st' (field_add acc [(sm, w')]) drives)"

definition visit_field :: "eval_fn \<Rightarrow> assignment \<Rightarrow> circuit_visitor \<Rightarrow> field \<Rightarrow> error + circuit_visitor \<times> field" where
  "visit_field ev a st ast = visit_field_loop ev a st [] ast"

fun visit_pulse_loop :: "eval_fn \<Rightarrow> assignment \<Rightarrow> circuit_visitor \<Rightarrow> pulse \<Rightarrow> pulse \<Rightarrow> error + circuit_visitor \<times> pulse" where
  "visit_pulse_loop ev a st acc [] = Inr (st, acc)"
| "visit_pulse_loop ev a st acc ((fn, fd) # rest) =
     (case visit_field ev a st fd of Inl e \<Rightarrow> Inl e
      | Inr (st', fd') \<Rightarrow> visit_pulse_loop ev a st' (AList.update fn fd' acc) rest)"

definition visit_pulse :: "eval_fn \<Rightarrow> assignment \<Rightarrow> circuit_visitor \<Rightarrow> pulse \<Rightarrow> error + circuit_visitor \<times> pulse" where
  "visit_pulse ev a st ast = visit_pulse_loop ev a st [] ast"

fun visit_sequence_loop :: "eval_fn \<Rightarrow> assignment \<Rightarrow> circuit_visitor \<Rightarrow> sequence \<Rightarrow> sequence \<Rightarrow> error + circuit_visitor \<times> sequence" where
  "visit_sequence_loop ev a st acc [] = Inr (st, acc)"
| "visit_sequence_loop ev a st acc ((pn, ps) # pulses) =
     (case visit_pulse ev a st ps of Inl e \<Rightarrow> Inl e
      | Inr (st', ps') \<Rightarrow> visit_sequence_loop ev a st' (AList.update pn ps' acc) pulses)"

definition visit_sequence :: "eval_fn \<Rightarrow> assignment \<Rightarrow> circuit_visitor \<Rightarrow> sequence \<Rightarrow> error + circuit_visitor \<times> sequence" where
  "visit_sequence ev a st ast = visit_sequence_loop ev a st [] ast"

text \<open>
  The register is carried through untouched, so its type is left open.
\<close>

datatype 'r analog_circuit = AnalogCircuit 'r sequence

record 'r IsConstantAnalogCircuitResult =
  circuit_is_constant :: bool
  effective_analog_circuit :: "'r analog_circuit"

fun emit_circuit :: "eval_fn \<Rightarrow> assignment \<Rightarrow> 'r analog_circuit \<Rightarrow> error + 'r IsConstantAnalogCircuitResult" where
  "emit_circuit ev a (AnalogCircuit reg sq) =
     (case visit_sequence ev a (True, None) sq of Inl e \<Rightarrow> Inl e
      | Inr (st, sq') \<Rightarrow>
        Inr \<lparr>circuit_is_constant = fst st,
             effective_analog_circuit = AnalogCircuit reg sq'\<rparr>)"

text \<open>
  The waveform leaves of a sequence in visiting order, and a sequence rebuilt with a
  function applied at every leaf.
\<close>

definition waveforms_of :: "sequence \<Rightarrow> waveform list" where
  "waveforms_of s = concat (map (\<lambda>(pn, ps). concat (map (\<lambda>(fn, fd). map snd fd) ps)) s)"

definition map_waveforms :: "(waveform \<Rightarrow> waveform) \<Rightarrow> sequence \<Rightarrow> sequence" where
  "map_waveforms f s =
     map (\<lambda>(pn, ps). (pn, map (\<lambda>(fn, fd). (fn, map (\<lambda>(sm, w). (sm, f w)) fd)) ps)) s"

definition distinct_keys :: "sequence \<Rightarrow> bool" where
  "distinct_keys s \<longleftrightarrow>
     distinct (map fst s) \<and>
     (\<forall>(pn, ps) \<in> set s. distinct (map fst ps) \<and>
        (\<forall>(fn, fd) \<in> set ps. distinct (map fst fd)))"

section \<open>The builder chain and its stream\<close>

text \<open>
  A builder chain is a linked list of configuration nodes, each remembering its
  predecessor in \<open>__parent__\<close>.  It is given here by its ancestry, root first, which
  is what \<open>BuilderStream.create\<close> materialises: the \<open>__parent__\<close> of the node at
  position \<open>i\<close> is the node at position \<open>i - 1\<close>, and the root's is \<open>None\<close>.
  One constructor stands for every class the parser tests for; \<open>WaveformPrimitive\<close>
  carries the IR waveform that the primitive lowers to.  The class hierarchy is absent
  from the sources: \<open>Fn\<close>, which the parser imports beside \<open>WaveformPrimitive\<close> and
  whose lowering \<open>Sample\<close> calls, is taken to be one of its subclasses, so an
  \<open>Fn\<close> node that no \<open>Sample\<close> node follows is lowered like a primitive.
\<close>

datatype param_type = Number rat | Vector "rat list"

datatype builder =
    ProgramStart "(rat \<times> rat) list"
  | SequenceBuilder sequence
  | Rydberg
  | Hyperfine
  | Rabi
  | Detuning
  | RabiAmplitude
  | RabiPhase
  | Location nat
  | Uniform
  | Scale_node scale_value
  | WaveformPrimitive waveform
  | Fn string scalar
  | Slice_node "scalar option" "scalar option"
  | Record_node string
  | Sample_node "interpolation option" scalar
  | Assign "(string \<times> param_type) list"
  | BatchAssign "(string \<times> param_type) list list"
  | ListAssign "(string \<times> param_type) list list"
  | Args "string list"
  | Parallelize scalar

datatype register = AtomArrangement builder | ParallelRegister register scalar

text \<open>
  Modelled from the spec: the stream module \<open>bloqade.builder.parse.stream\<close> is absent
  from the sources.  A stream is the materialised node sequence with a cursor; a
  \<open>BuilderNode\<close> is a position in it, whose \<open>next\<close> is the following position.
  \<open>read\<close> returns the node at the cursor and advances; \<open>read_next\<close> advances past
  the nodes that do not match and returns the first match, or \<open>None\<close> when the stream
  is exhausted; \<open>copy\<close> is the identity on the value.
\<close>

record builder_stream =
  nodes :: "builder list"
  curr :: nat

definition create :: "builder list \<Rightarrow> builder_stream" where
  "create b = \<lparr>nodes = b, curr = 0\<rparr>"

definition read :: "builder_stream \<Rightarrow> nat option \<times> builder_stream" where
  "read s = (if curr s < length (nodes s) then (Some (curr s), s\<lparr>curr := Suc (curr s)\<rparr>)
             else (None, s))"

fun find_next :: "(builder \<Rightarrow> bool) \<Rightarrow> nat \<Rightarrow> builder list \<Rightarrow> nat option" where
  "find_next P i [] = None"
| "find_next P i (x # xs) = (if P x then Some i else find_next P (Suc i) xs)"

definition read_next :: "(builder \<Rightarrow> bool) \<Rightarrow> builder_stream \<Rightarrow> nat option \<times> builder_stream" where
  "read_next P s =
     (case find_next P (curr s) (drop (curr s) (nodes s)) of
        None \<Rightarrow> (None, s\<lparr>curr := max (curr s) (length (nodes s))\<rparr>)
      | Some i \<Rightarrow> (Some i, s\<lparr>curr := Suc i\<rparr>))"

definition parent :: "builder list \<Rightarrow> nat \<Rightarrow> builder option" where
  "parent ns i = (if 0 < i \<and> i \<le> length ns then Some (ns ! (i - 1)) else None)"

definition next_node :: "builder list \<Rightarrow> nat \<Rightarrow> nat option" where
  "next_node ns i = (if Suc i < length ns then Some (Suc i) else None)"

fun is_spatial :: "builder \<Rightarrow> bool" where
  "is_spatial (Location l) = True"
| "is_spatial Uniform = True"
| "is_spatial (Scale_node v) = True"
| "is_spatial _ = False"

fun is_pragma :: "builder \<Rightarrow> bool" where
  "is_pragma (Assign sp) = True"
| "is_pragma (BatchAssign bp) = True"
| "is_pragma (ListAssign bp) = True"
| "is_pragma (Args names) = True"
| "is_pragma (Parallelize cs) = True"
| "is_pragma _ = False"

text \<open>
  Modelled from the spec: the \<open>__bloqade_ir__\<close> lowerings of the builder classes are
  absent from the sources.  A coupling, a field and a spatial node lower to their IR
  key, a primitive (and a function wrapper) to its waveform leaf; a node of another
  kind has no such lowering.
\<close>

fun bloqade_ir_coupling :: "builder \<Rightarrow> error + level_coupling" where
  "bloqade_ir_coupling Rydberg = Inr rydberg"
| "bloqade_ir_coupling Hyperfine = Inr hyperfine"
| "bloqade_ir_coupling _ = Inl (AttributeError ''__bloqade_ir__'')"

fun bloqade_ir_field :: "builder \<Rightarrow> error + field_name" where
  "bloqade_ir_field Detuning = Inr detuning"
| "bloqade_ir_field RabiAmplitude = Inr rabi_amplitude"
| "bloqade_ir_field RabiPhase = Inr rabi_phase"
| "bloqade_ir_field _ = Inl (AttributeError ''__bloqade_ir__'')"

fun bloqade_ir_spatial :: "builder \<Rightarrow> error + spatial_modulation" where
  "bloqade_ir_spatial Uniform = Inr UniformModulation"
| "bloqade_ir_spatial (Location l) = Inr (ScaledLocations l)"
| "bloqade_ir_spatial (Scale_node v) = Inr (RunTimeVector v)"
| "bloqade_ir_spatial _ = Inl (AttributeError ''__bloqade_ir__'')"

fun bloqade_ir_waveform :: "builder \<Rightarrow> error + waveform" where
  "bloqade_ir_waveform (WaveformPrimitive w) = Inr w"
| "bloqade_ir_waveform (Fn f d) = Inr (PythonFn f d)"
| "bloqade_ir_waveform _ = Inl (AttributeError ''__bloqade_ir__'')"

text \<open>
  Modelled from the spec: \<open>Waveform.append\<close> places the new waveform after the
  accumulated one, \<open>Append([A, B])\<close>.
\<close>

definition append_waveform :: "waveform \<Rightarrow> waveform \<Rightarrow> waveform" where
  "append_waveform w other = Append [w, other]"

section \<open>The parser\<close>

text \<open>
  The attributes of a \<open>Parser\<close> object.  \<open>coupling_name\<close> and \<open>field_name\<close> are
  not declared by the class and not assigned by \<open>reset\<close>; they exist only once
  \<open>read_sequence\<close> has assigned them, so \<open>None\<close> stands for the missing attribute.
\<close>

record Parser =
  stream :: "builder_stream option"
  vector_node_names :: "string list"
  sequence :: sequence
  register :: "register option"
  batch_params :: "(string \<times> param_type) list list"
  static_params :: "(string \<times> param_type) list"
  order :: "string list"
  coupling_name :: "level_coupling option"
  field_name :: "field_name option"

definition fresh_Parser :: Parser where
  "fresh_Parser =
     \<lparr>stream = None, vector_node_names = [], sequence = [], register = None,
      batch_params = [[]], static_params = [], order = [],
      coupling_name = None, field_name = None\<rparr>"

definition reset :: "Parser \<Rightarrow> builder list \<Rightarrow> Parser" where
  "reset self b =
     self\<lparr>stream := Some (create b), vector_node_names := [], sequence := [],
          register := None, batch_params := [[]], static_params := [], order := []\<rparr>"

text \<open>
  \<open>read_address\<close>: the next spatial node, with the field node and the coupling node
  that scope it.  The \<open>while\<close> loop of the source that walks \<open>curr\<close> over the
  following spatial nodes assigns only a local variable that is never read again, and
  always ends; it has no counterpart here.  \<open>None.__parent__\<close> raises.
\<close>

definition read_address :: "builder_stream \<Rightarrow> error + (builder option \<times> builder option \<times> nat option) \<times> builder_stream" where
  "read_address s =
     (case read_next is_spatial s of
        (None, s') \<Rightarrow> Inr ((None, None, None), s')
      | (Some spatial, s') \<Rightarrow>
        (case parent (nodes s) spatial of
           None \<Rightarrow> Inr ((None, None, Some spatial), s')
         | Some field \<Rightarrow>
           if field \<in> {Detuning, RabiAmplitude, RabiPhase} then
             (case (if field \<in> {RabiAmplitude, RabiPhase} then
                      (case parent (nodes s) (spatial - 1) of
                         None \<Rightarrow> Inl (AttributeError ''__parent__'')
                       | Some rabi \<Rightarrow> Inr (parent (nodes s) (spatial - 2)))
                    else Inr (parent (nodes s) (spatial - 1))) of
                Inl e \<Rightarrow> Inl e
              | Inr coupling \<Rightarrow>
                Inr (((case coupling of
                         None \<Rightarrow> None
                       | Some c \<Rightarrow> if c \<in> {Rydberg, Hyperfine} then Some c else None),
                      Some field, Some spatial), s'))
           else Inr ((None, None, Some spatial), s')))"

text \<open>
  \<open>read_waveform\<close>: the loop over the nodes from \<open>head\<close> on.  The arguments of the
  loop are \<open>self.field_name\<close>, the \<open>__parent__\<close> of the current node, its position,
  the accumulated \<open>waveform\<close> and the nodes from the current one on.  Slicing or
  recording \<open>None\<close> raises, as does reading a \<open>field_name\<close> that was never assigned.
\<close>

fun read_waveform_loop :: "field_name option \<Rightarrow> builder option \<Rightarrow> nat \<Rightarrow> waveform option \<Rightarrow> builder list \<Rightarrow> error + waveform option \<times> nat option" where
  "read_waveform_loop fname par i waveform [] = Inr (waveform, None)"
| "read_waveform_loop fname par i waveform (Slice_node start stop # rest) =
     (case waveform of
        None \<Rightarrow> Inl (TypeError ''NoneType is not subscriptable'')
      | Some w \<Rightarrow>
        read_waveform_loop fname (Some (Slice_node start stop)) (Suc i)
          (Some (Slice w start stop)) rest)"
| "read_waveform_loop fname par i waveform (Record_node name # rest) =
     (case waveform of
        None \<Rightarrow> Inl (AttributeError ''record'')
      | Some w \<Rightarrow>
        read_waveform_loop fname (Some (Record_node name)) (Suc i) (Some (Record w name)) rest)"
| "read_waveform_loop fname par i waveform (Sample_node interp dt # rest) =
     (case (case interp of
              Some x \<Rightarrow> Inr x
            | None \<Rightarrow>
              (case fname of
                 None \<Rightarrow> Inl (AttributeError ''field_name'')
               | Some f \<Rightarrow>
                 Inr (if f = rabi_phase then InterpolationConstant else InterpolationLinear))) of
        Inl e \<Rightarrow> Inl e
      | Inr interpolation \<Rightarrow>
        (case (case par of
                 None \<Rightarrow> Inl (AttributeError ''__bloqade_ir__'')
               | Some p \<Rightarrow> bloqade_ir_waveform p) of
           Inl e \<Rightarrow> Inl e
         | Inr fn_waveform \<Rightarrow>
           read_waveform_loop fname (Some (Sample_node interp dt)) (Suc i)
             (Some (case waveform of
                      None \<Rightarrow> Sample fn_waveform interpolation dt
                    | Some w \<Rightarrow> append_waveform w (Sample fn_waveform interpolation dt)))
             rest))"
| "read_waveform_loop fname par i waveform (Fn f d # Sample_node interp dt # rest) =
     read_waveform_loop fname (Some (Fn f d)) (Suc i) waveform (Sample_node interp dt # rest)"
| "read_waveform_loop fname par i waveform (Fn f d # rest) =
     read_waveform_loop fname (Some (Fn f d)) (Suc i)
       (Some (case waveform of
                None \<Rightarrow> PythonFn f d
              | Some w \<Rightarrow> append_waveform w (PythonFn f d)))
       rest"
| "read_waveform_loop fname par i waveform (WaveformPrimitive p # rest) =
     read_waveform_loop fname (Some (WaveformPrimitive p)) (Suc i)
       (Some (case waveform of None \<Rightarrow> p | Some w \<Rightarrow> append_waveform w p))
       rest"
| "read_waveform_loop fname par i waveform (node # rest) = Inr (waveform, Some i)"

definition read_waveform :: "Parser \<Rightarrow> builder list \<Rightarrow> nat option \<Rightarrow> error + waveform option \<times> nat option" where
  "read_waveform self ns head =
     (case head of
        None \<Rightarrow> Inr (None, None)
      | Some i \<Rightarrow> read_waveform_loop (field_name self) (parent ns i) i None (drop i ns))"

text \<open>
  \<open>read_drive\<close>.  Modelled from the spec: a \<open>Field\<close> maps spatial keys to waveforms,
  so the constructor (absent from the sources) rejects a drive for which no waveform
  was read.
\<close>

definition read_drive :: "Parser \<Rightarrow> builder list \<Rightarrow> nat option \<Rightarrow> error + field" where
  "read_drive self ns head =
     (case head of
        None \<Rightarrow> Inr []
      | Some i \<Rightarrow>
        (case bloqade_ir_spatial (ns ! i) of Inl e \<Rightarrow> Inl e
         | Inr sm \<Rightarrow>
           (case read_waveform self ns (next_node ns i) of Inl e \<Rightarrow> Inl e
            | Inr (wf', _) \<Rightarrow>
              (case wf' of
                 None \<Rightarrow> Inl (ValidationError ''drives'')
               | Some w \<Rightarrow> Inr [(sm, w)]))))"

text \<open>
  The body of the loop of \<open>read_sequence\<close> after the address has been read: the sticky
  names are updated, and the drive at \<open>spatial_head\<close> is merged into the running
  sequence.  Reading \<open>self.coupling_name\<close> or \<open>self.field_name\<close> before either was
  ever assigned raises \<open>AttributeError\<close>.
\<close>

definition update_names :: "Parser \<Rightarrow> builder option \<Rightarrow> builder option \<Rightarrow> error + Parser" where
  "update_names self coupling_builder field_builder =
     (case (case coupling_builder of
              None \<Rightarrow> Inr self
            | Some c \<Rightarrow>
              (case bloqade_ir_coupling c of Inl e \<Rightarrow> Inl e
               | Inr cn \<Rightarrow> Inr (self\<lparr>coupling_name := Some cn\<rparr>))) of
        Inl e \<Rightarrow> Inl e
      | Inr self' \<Rightarrow>
        (case field_builder of
           None \<Rightarrow> Inr self'
         | Some f \<Rightarrow>
           (case bloqade_ir_field f of Inl e \<Rightarrow> Inl e
            | Inr fn \<Rightarrow> Inr (self'\<lparr>field_name := Some fn\<rparr>))))"

definition merge_drive :: "Parser \<Rightarrow> builder list \<Rightarrow> nat \<Rightarrow> error + Parser" where
  "merge_drive self ns spatial_head =
     (case coupling_name self of
        None \<Rightarrow> Inl (AttributeError ''coupling_name'')
      | Some cn \<Rightarrow>
        (let pulse = (case map_of (sequence self) cn of None \<Rightarrow> [] | Some ps \<Rightarrow> ps)
         in case field_name self of
              None \<Rightarrow> Inl (AttributeError ''field_name'')
            | Some fn \<Rightarrow>
              (let field = (case map_of pulse fn of None \<Rightarrow> [] | Some fd \<Rightarrow> fd)
               in case read_drive self ns (Some spatial_head) of Inl e \<Rightarrow> Inl e
                  | Inr drive \<Rightarrow>
                    Inr (self\<lparr>sequence :=
                           AList.update cn (AList.update fn (field_add field drive) pulse)
                             (sequence self)\<rparr>))))"

definition read_sequence_step :: "Parser \<Rightarrow> builder_stream \<Rightarrow> error + Parser \<times> builder_stream option" where
  "read_sequence_step self s =
     (case read_address s of Inl e \<Rightarrow> Inl e
      | Inr ((coupling_builder, field_builder, spatial_head), s') \<Rightarrow>
        (case update_names self coupling_builder field_builder of Inl e \<Rightarrow> Inl e
         | Inr self' \<Rightarrow>
           (case spatial_head of
              None \<Rightarrow> Inr (self', None)
            | Some i \<Rightarrow>
              (case merge_drive self' (nodes s) i of Inl e \<Rightarrow> Inl e
               | Inr self'' \<Rightarrow> Inr (self'', Some s')))))"

text \<open>
  The \<open>while stream.curr is not None\<close> loop of \<open>read_sequence\<close>.  Each round reads
  at least one node, which is why the loop ends.
\<close>

lemma find_next_Some:
  "find_next P k xs = Some i \<Longrightarrow> k \<le> i \<and> i < k + length xs"
  by (induction xs arbitrary: k) (fastforce split: if_splits)+

lemma read_next_Some:
  assumes "read_next P s = (Some i, s')"
  shows "nodes s' = nodes s \<and> curr s' = Suc i \<and> curr s \<le> i \<and> i < length (nodes s)"
proof -
  from assms have f: "find_next P (curr s) (drop (curr s) (nodes s)) = Some i"
    and s': "s' = s\<lparr>curr := Suc i\<rparr>"
    by (auto simp: read_next_def split: option.splits)
  from find_next_Some [OF f] show ?thesis by (auto simp: s')
qed

lemma read_sequence_step_advances:
  assumes "read_sequence_step self s = Inr (self', Some s')"
  shows "nodes s' = nodes s \<and> curr s < curr s' \<and> curr s' \<le> length (nodes s)"
proof -
  from assms obtain r i where "read_address s = Inr (r, s')" and "snd (snd r) = Some i"
    by (auto simp: read_sequence_step_def split: sum.splits prod.splits option.splits)
  then have "read_next is_spatial s = (Some i, s')"
    by (auto simp: read_address_def split: prod.splits option.splits if_splits sum.splits)
  from read_next_Some [OF this] show ?thesis by auto
qed

function read_sequence_loop :: "Parser \<Rightarrow> builder_stream \<Rightarrow> error + Parser" where
  "read_sequence_loop self s =
     (if curr s < length (nodes s) then
        (case read_sequence_step self s of
           Inl e \<Rightarrow> Inl e
         | Inr (self', None) \<Rightarrow> Inr self'
         | Inr (self', Some s') \<Rightarrow> read_sequence_loop self' s')
      else Inr self)"
  by pat_completeness auto
termination
proof (relation "measure (\<lambda>(self, s). length (nodes s) - curr s)")
  show "wf (measure (\<lambda>(self, s). length (nodes s) - curr s))" by simp
next
  fix self s x2 x y x2a
  assume "curr s < length (nodes s)"
    and "read_sequence_step self s = Inr x2"
    and "(x, y) = x2"
    and "y = Some x2a"
  then have "read_sequence_step self s = Inr (x, Some x2a)" by simp
  from read_sequence_step_advances [OF this]
  show "((x, x2a), self, s) \<in> measure (\<lambda>(self, s). length (nodes s) - curr s)"
    by auto
qed

text \<open>
  \<open>read_sequence\<close>: a \<open>SequenceBuilder\<close> at the cursor is adopted verbatim;
  otherwise the loop runs over a copy of the stream.  A cursor at the end of the stream
  is \<open>None\<close>, and \<open>None.node\<close> raises.
\<close>

definition read_sequence :: "Parser \<Rightarrow> error + Parser" where
  "read_sequence self =
     (case stream self of
        None \<Rightarrow> Inl (AttributeError ''curr'')
      | Some s \<Rightarrow>
        if curr s < length (nodes s) then
          (case nodes s ! curr s of
             SequenceBuilder sq \<Rightarrow>
               Inr (self\<lparr>stream := Some (snd (read s)), sequence := sq\<rparr>)
           | _ \<Rightarrow> read_sequence_loop self s)
        else Inl (AttributeError ''node''))"

definition read_register :: "Parser \<Rightarrow> error + Parser" where
  "read_register self =
     (case stream self of
        None \<Rightarrow> Inl (AttributeError ''read'')
      | Some s \<Rightarrow>
        (case read s of
           (None, s') \<Rightarrow> Inl (AttributeError ''node'')
         | (Some i, s') \<Rightarrow>
           Inr (self\<lparr>stream := Some s', register := Some (AtomArrangement (nodes s ! i))\<rparr>)))"

text \<open>
  The duplicate scan of the \<open>Args\<close> branch: \<open>seen\<close> is the set built so far, the
  result is the list \<open>dup\<close>.
\<close>

fun duplicates :: "string list \<Rightarrow> string list \<Rightarrow> string list" where
  "duplicates seen [] = []"
| "duplicates seen (x # xs) =
     (if x \<notin> set seen then duplicates (x # seen) xs else x # duplicates seen xs)"

text \<open>
  The loop of \<open>read_pragmas\<close> over the nodes from the first pragma on.  Modelled from
  the spec: the \<open>ParallelRegister\<close> constructor (absent from the sources) wraps a
  register, so it rejects \<open>None\<close>.
\<close>

fun read_pragmas_loop :: "Parser \<Rightarrow> builder list \<Rightarrow> error + Parser" where
  "read_pragmas_loop self [] = Inr self"
| "read_pragmas_loop self (Assign sp # rest) =
     read_pragmas_loop (self\<lparr>static_params := sp\<rparr>) rest"
| "read_pragmas_loop self (BatchAssign bp # rest) =
     read_pragmas_loop (self\<lparr>batch_params := bp\<rparr>) rest"
| "read_pragmas_loop self (ListAssign bp # rest) =
     read_pragmas_loop (self\<lparr>batch_params := bp\<rparr>) rest"
| "read_pragmas_loop self (Args names # rest) =
     (let dup = duplicates [] names
      in if dup \<noteq> [] then Inl (DuplicateNames dup)
         else (let vector_names = filter (\<lambda>x. x \<in> set (vector_node_names self)) names
               in if vector_names \<noteq> [] then Inl (RunTimeVectors vector_names)
                  else read_pragmas_loop (self\<lparr>order := names\<rparr>) rest))"
| "read_pragmas_loop self (Parallelize cluster_spacing # rest) =
     (case register self of
        None \<Rightarrow> Inl (ValidationError ''register'')
      | Some r \<Rightarrow>
        read_pragmas_loop (self\<lparr>register := Some (ParallelRegister r cluster_spacing)\<rparr>) rest)"
| "read_pragmas_loop self (node # rest) = Inr self"

definition read_pragmas :: "Parser \<Rightarrow> error + Parser" where
  "read_pragmas self =
     (case stream self of
        None \<Rightarrow> Inl (AttributeError ''copy'')
      | Some s \<Rightarrow>
        (case read_next is_pragma s of
           (None, s') \<Rightarrow> Inr self
         | (Some i, s') \<Rightarrow> read_pragmas_loop self (drop i (nodes s))))"

datatype params = Params "(string \<times> param_type) list" "(string \<times> param_type) list list" "string list"

datatype routine = Routine "builder list" "register analog_circuit" params

definition parse_register :: "Parser \<Rightarrow> builder list \<Rightarrow> error + register option \<times> Parser" where
  "parse_register self b =
     (case read_register (reset self b) of Inl e \<Rightarrow> Inl e
      | Inr p1 \<Rightarrow>
        (case read_pragmas p1 of Inl e \<Rightarrow> Inl e
         | Inr p2 \<Rightarrow> Inr (register p2, p2)))"

definition parse_sequence :: "Parser \<Rightarrow> builder list \<Rightarrow> error + sequence \<times> Parser" where
  "parse_sequence self b =
     (case read_sequence (reset self b) of Inl e \<Rightarrow> Inl e
      | Inr p1 \<Rightarrow> Inr (sequence p1, p1))"

text \<open>
  Modelled from the spec: an \<open>AnalogCircuit\<close> pairs a register with a sequence, so its
  constructor (absent from the sources) rejects a register that was never read.
\<close>

definition make_circuit :: "Parser \<Rightarrow> error + register analog_circuit" where
  "make_circuit self =
     (case register self of
        None \<Rightarrow> Inl (ValidationError ''register'')
      | Some r \<Rightarrow> Inr (AnalogCircuit r (sequence self)))"

definition parse_circuit :: "Parser \<Rightarrow> builder list \<Rightarrow> error + register analog_circuit \<times> Parser" where
  "parse_circuit self b =
     (case read_register (reset self b) of Inl e \<Rightarrow> Inl e
      | Inr p1 \<Rightarrow>
        (case read_sequence p1 of Inl e \<Rightarrow> Inl e
         | Inr p2 \<Rightarrow>
           (case make_circuit p2 of Inl e \<Rightarrow> Inl e
            | Inr circuit \<Rightarrow> Inr (circuit, p2))))"

text \<open>
  Every top-level operation returns its result together with the parser object as the
  call leaves it, so that a second call on the same object can be stated.
\<close>

definition parse :: "Parser \<Rightarrow> builder list \<Rightarrow> error + routine \<times> Parser" where
  "parse self b =
     (case read_register (reset self b) of Inl e \<Rightarrow> Inl e
      | Inr p1 \<Rightarrow>
        (case read_sequence p1 of Inl e \<Rightarrow> Inl e
         | Inr p2 \<Rightarrow>
           (case read_pragmas p2 of Inl e \<Rightarrow> Inl e
            | Inr p3 \<Rightarrow>
              (case make_circuit p3 of Inl e \<Rightarrow> Inl e
               | Inr circuit \<Rightarrow>
                 Inr (Routine b circuit
                        (Params (static_params p3) (batch_params p3) (order p3)), p3)))))"

text \<open>
  Vocabulary for the circuit-level statement: the verdict and the folded representative
  that \<open>IsConstantWaveform\<close> gives for one waveform, and the visitor state after a
  list of waveforms has been visited in order.
\<close>

fun visit_waveforms :: "eval_fn \<Rightarrow> assignment \<Rightarrow> circuit_visitor \<Rightarrow> waveform list \<Rightarrow> error + circuit_visitor" where
  "visit_waveforms ev a st [] = Inr st"
| "visit_waveforms ev a st (w # ws) =
     (case visit_waveform ev a st w of Inl e \<Rightarrow> Inl e
      | Inr (st', w') \<Rightarrow> visit_waveforms ev a st' ws)"

definition individually_constant :: "eval_fn \<Rightarrow> assignment \<Rightarrow> waveform \<Rightarrow> bool" where
  "individually_constant ev a w =
     (case emit ev a w of Inl e \<Rightarrow> False | Inr result \<Rightarrow> is_constant result)"

definition folded :: "eval_fn \<Rightarrow> assignment \<Rightarrow> waveform \<Rightarrow> waveform" where
  "folded ev a w =
     (case emit ev a w of Inl e \<Rightarrow> w | Inr result \<Rightarrow> constant_waveform result)"

definition pulse_waveforms :: "pulse \<Rightarrow> waveform list" where
  "pulse_waveforms ps = concat (map (\<lambda>(fn, fd). map snd fd) ps)"

section \<open>Properties of \<open>IsConstantWaveform\<close>\<close>

text \<open>
  Claim C6.  For a \<open>Linear\<close> waveform whose start, stop and duration evaluate under the
  assignment, \<open>emit\<close> reports \<open>is_constant\<close> exactly when the evaluated start equals the
  evaluated stop, and whatever the verdict it packages \<open>Constant(value, duration)\<close> with
  the total duration and the value at that end time.
\<close>

theorem emit_linear:
  assumes "scalar_call start a = Inr s"
    and "scalar_call stop a = Inr e"
    and "scalar_call d a = Inr dv"
    and "ev (Linear start stop d) dv a = Inr v"
  shows "emit ev a (Linear start stop d) =
           Inr \<lparr>is_constant = (s = e),
                constant_waveform = Constant (Literal v) (Literal dv)\<rparr>"
  using assms by (auto simp: emit_def emit_result_def)

text \<open>
  The example P4: \<open>Linear(start=1, stop=1, duration=2)\<close> under the empty assignment is
  constant and folds to \<open>Constant(value=1, duration=2)\<close>.
\<close>

theorem emit_linear_witness:
  "emit eval_decimal [] (Linear (Literal 1) (Literal 1) (Literal 2)) =
     Inr \<lparr>is_constant = True, constant_waveform = Constant (Literal 1) (Literal 2)\<rparr>"
  using emit_linear [of "Literal 1" "[]" 1 "Literal 1" 1 "Literal 2" 2 eval_decimal 1]
  by simp

text \<open>
  Claim C7.  For an \<open>Add\<close> whose operands have different evaluated durations, the
  visitor sets \<open>is_constant\<close> to false and returns before visiting either operand:
  nothing is assumed about the operands beyond their durations, so neither their
  constancy nor an error inside them can influence the verdict.  \<open>emit\<close> then packages
  the duration and end value of the \<open>Add\<close> node itself.
\<close>

theorem emit_add_duration_mismatch:
  assumes "duration l a = Inr dl"
    and "duration r a = Inr dr"
    and "dl \<noteq> dr"
    and "ev (Add l r) (max dl dr) a = Inr v"
  shows "visit ev a c (Add l r) = Inr False \<and>
         emit ev a (Add l r) =
           Inr \<lparr>is_constant = False,
                constant_waveform = Constant (Literal v) (Literal (max dl dr))\<rparr>"
  using assms by (simp add: emit_def emit_result_def)

text \<open>
  The example P6: \<open>Add(Constant(1, duration=1), Constant(1, duration=2))\<close> under the
  empty assignment is not constant.
\<close>

theorem emit_add_duration_mismatch_witness:
  "visit eval_decimal [] True
     (Add (Constant (Literal 1) (Literal 1)) (Constant (Literal 1) (Literal 2))) = Inr False \<and>
   emit eval_decimal []
     (Add (Constant (Literal 1) (Literal 1)) (Constant (Literal 1) (Literal 2))) =
     Inr \<lparr>is_constant = False, constant_waveform = Constant (Literal 1) (Literal 2)\<rparr>"
  using emit_add_duration_mismatch
    [of "Constant (Literal 1) (Literal 1)" "[]" 1 "Constant (Literal 1) (Literal 2)" 2
        eval_decimal 1 True]
  by simp


section \<open>Properties of \<open>IsConstantAnalogCircuit\<close>\<close>

lemma emit_Inr:
  assumes "emit ev a w = Inr r"
  shows "\<exists>d v. duration w a = Inr d \<and> constant_waveform r = Constant (Literal v) (Literal d)"
  using assms by (auto simp: emit_def emit_result_def split: sum.splits)

lemma visit_waveform_Inr:
  assumes "emit ev a w = Inr r"
  shows "\<exists>d. duration w a = Inr d \<and>
     visit_waveform ev a (c, dur) w =
       Inr ((c \<and> individually_constant ev a w \<and> (dur = None \<or> dur = Some d),
             Some (case dur of None \<Rightarrow> d | Some d0 \<Rightarrow> d0)), folded ev a w)"
proof -
  from emit_Inr [OF assms] obtain d v where
    d: "duration w a = Inr d" and cw: "constant_waveform r = Constant (Literal v) (Literal d)"
    by blast
  show ?thesis
    using assms d cw
    by (cases dur) (auto simp: visit_waveform_def individually_constant_def folded_def Let_def)
qed

lemma visit_waveforms_Some:
  assumes "\<forall>w \<in> set ws. \<exists>r. emit ev a w = Inr r"
  shows "visit_waveforms ev a (c, Some d0) ws =
     Inr (c \<and> (\<forall>w \<in> set ws. individually_constant ev a w) \<and>
              (\<forall>w \<in> set ws. duration w a = Inr d0), Some d0)"
  using assms
proof (induction ws arbitrary: c)
  case Nil
  then show ?case by simp
next
  case (Cons w ws)
  then obtain r where r: "emit ev a w = Inr r" by auto
  from visit_waveform_Inr [OF r, of c "Some d0"] obtain d where
    d: "duration w a = Inr d" and
    v: "visit_waveform ev a (c, Some d0) w =
       Inr ((c \<and> individually_constant ev a w \<and> d0 = d, Some d0), folded ev a w)"
    by auto
  have ih: "\<forall>w \<in> set ws. \<exists>r. emit ev a w = Inr r" using Cons.prems by simp
  show ?case
    using d by (auto simp: v Cons.IH [OF ih])
qed

lemma visit_waveforms_None:
  assumes "\<forall>w \<in> set ws. \<exists>r. emit ev a w = Inr r"
  shows "\<exists>st. visit_waveforms ev a (True, None) ws = Inr st \<and>
     (fst st \<longleftrightarrow> (\<forall>w \<in> set ws. individually_constant ev a w) \<and>
              (\<forall>w \<in> set ws. \<forall>w' \<in> set ws. duration w a = duration w' a))"
proof (cases ws)
  case Nil
  then show ?thesis by simp
next
  case (Cons w ws')
  then obtain r where r: "emit ev a w = Inr r" using assms by auto
  from visit_waveform_Inr [OF r, of True None] obtain d where
    d: "duration w a = Inr d" and
    v: "visit_waveform ev a (True, None) w =
       Inr ((individually_constant ev a w, Some d), folded ev a w)"
    by auto
  have ih: "\<forall>w \<in> set ws'. \<exists>r. emit ev a w = Inr r" using assms Cons by simp
  show ?thesis
    unfolding Cons using d
    by (auto simp: v visit_waveforms_Some [OF ih])
qed

lemma field_add_fresh:
  "sm \<notin> fst ` set acc \<Longrightarrow> field_add acc [(sm, w)] = acc @ [(sm, w)]"
  by (induction acc) (auto simp: map_of_eq_None_iff [symmetric] image_iff split: option.splits)

lemma update_fresh:
  "k \<notin> fst ` set acc \<Longrightarrow> AList.update k v acc = acc @ [(k, v)]"
  by (induction acc) auto

lemma visit_field_loop_eq:
  assumes "visit_waveforms ev a st (map snd drives) = Inr st'"
    and "distinct (map fst (acc @ drives))"
  shows "visit_field_loop ev a st acc drives =
     Inr (st', acc @ map (\<lambda>(sm, w). (sm, folded ev a w)) drives)"
  using assms
proof (induction drives arbitrary: st acc)
  case Nil
  then show ?case by simp
next
  case (Cons p drives)
  obtain sm w where p: "p = (sm, w)" by (cases p)
  from Cons.prems(1) obtain st1 w1 where
    v: "visit_waveform ev a st w = Inr (st1, w1)" and
    rest: "visit_waveforms ev a st1 (map snd drives) = Inr st'"
    by (auto simp: p split: sum.splits)
  have w1: "w1 = folded ev a w"
    using v by (auto simp: visit_waveform_def folded_def Let_def split: sum.splits option.splits)
  have fresh: "sm \<notin> fst ` set acc" using Cons.prems(2) by (auto simp: p)
  have d: "distinct (map fst ((acc @ [(sm, w1)]) @ drives))"
    using Cons.prems(2) by (auto simp: p)
  show ?case
    using Cons.IH [OF rest d]
    by (simp add: p v field_add_fresh [OF fresh] w1 del: field_add.simps)
qed

lemma visit_waveforms_append:
  "visit_waveforms ev a st (xs @ ys) =
     (case visit_waveforms ev a st xs of Inl e \<Rightarrow> Inl e
      | Inr st1 \<Rightarrow> visit_waveforms ev a st1 ys)"
  by (induction xs arbitrary: st) (auto split: sum.splits)

lemma visit_pulse_loop_eq:
  assumes "visit_waveforms ev a st (pulse_waveforms fds) = Inr st'"
    and "distinct (map fst (acc @ fds))"
    and "\<forall>(fn, fd) \<in> set fds. distinct (map fst fd)"
  shows "visit_pulse_loop ev a st acc fds =
     Inr (st', acc @ map (\<lambda>(fn, fd). (fn, map (\<lambda>(sm, w). (sm, folded ev a w)) fd)) fds)"
  using assms
proof (induction fds arbitrary: st acc)
  case Nil
  then show ?case by (simp add: pulse_waveforms_def)
next
  case (Cons p fds)
  obtain fn fd where p: "p = (fn, fd)" by (cases p)
  from Cons.prems(1) obtain st1 where
    v: "visit_waveforms ev a st (map snd fd) = Inr st1" and
    rest: "visit_waveforms ev a st1 (pulse_waveforms fds) = Inr st'"
    by (auto simp: p pulse_waveforms_def visit_waveforms_append split: sum.splits)
  have dfd: "distinct (map fst ([] @ fd))" using Cons.prems(3) by (simp add: p)
  have vf: "visit_field ev a st fd = Inr (st1, map (\<lambda>(sm, w). (sm, folded ev a w)) fd)"
    using visit_field_loop_eq [OF v dfd] by (simp add: visit_field_def)
  have fresh: "fn \<notin> fst ` set acc" using Cons.prems(2) by (auto simp: p)
  have d: "distinct (map fst ((acc @ [(fn, map (\<lambda>(sm, w). (sm, folded ev a w)) fd)]) @ fds))"
    using Cons.prems(2) by (auto simp: p)
  have r3: "\<forall>(fn, fd) \<in> set fds. distinct (map fst fd)" using Cons.prems(3) by simp
  show ?case
    using Cons.IH [OF rest d r3] by (simp add: p vf update_fresh [OF fresh])
qed

lemma visit_sequence_loop_eq:
  assumes "visit_waveforms ev a st (waveforms_of pulses) = Inr st'"
    and "distinct (map fst (acc @ pulses))"
    and "\<forall>(pn, ps) \<in> set pulses. distinct (map fst ps) \<and>
           (\<forall>(fn, fd) \<in> set ps. distinct (map fst fd))"
  shows "visit_sequence_loop ev a st acc pulses = Inr (st', acc @ map_waveforms (folded ev a) pulses)"
  using assms
proof (induction pulses arbitrary: st acc)
  case Nil
  then show ?case by (simp add: waveforms_of_def map_waveforms_def)
next
  case (Cons p pulses)
  obtain pn ps where p: "p = (pn, ps)" by (cases p)
  from Cons.prems(1) obtain st1 where
    v: "visit_waveforms ev a st (pulse_waveforms ps) = Inr st1" and
    rest: "visit_waveforms ev a st1 (waveforms_of pulses) = Inr st'"
    by (auto simp: p waveforms_of_def pulse_waveforms_def visit_waveforms_append split: sum.splits)
  have dps: "distinct (map fst ([] @ ps))" and dfd: "\<forall>(fn, fd) \<in> set ps. distinct (map fst fd)"
    using Cons.prems(3) by (auto simp: p)
  have vp: "visit_pulse ev a st ps =
      Inr (st1, map (\<lambda>(fn, fd). (fn, map (\<lambda>(sm, w). (sm, folded ev a w)) fd)) ps)"
    using visit_pulse_loop_eq [OF v dps dfd] by (simp add: visit_pulse_def)
  have fresh: "pn \<notin> fst ` set acc" using Cons.prems(2) by (auto simp: p)
  have d: "distinct (map fst ((acc @ [(pn, map (\<lambda>(fn, fd). (fn, map (\<lambda>(sm, w). (sm, folded ev a w)) fd)) ps)]) @ pulses))"
    using Cons.prems(2) by (auto simp: p)
  have r3: "\<forall>(pn, ps) \<in> set pulses. distinct (map fst ps) \<and>
           (\<forall>(fn, fd) \<in> set ps. distinct (map fst fd))" using Cons.prems(3) by simp
  show ?case
    using Cons.IH [OF rest d r3] by (simp add: p vp update_fresh [OF fresh] map_waveforms_def)
qed

text \<open>
  Claim C8.  On a circuit whose dictionaries have distinct keys and whose waveforms can
  all be analysed, \<open>IsConstantAnalogCircuit.emit\<close> returns the circuit with every
  waveform leaf replaced by its folded \<open>Constant\<close>, whatever the verdict, and the
  verdict is true exactly when every waveform is individually constant and all waveforms
  have one common total duration.
\<close>

theorem emit_circuit_correct:
  assumes "distinct_keys sq"
    and "\<forall>w \<in> set (waveforms_of sq). \<exists>r. emit ev a w = Inr r"
  shows "emit_circuit ev a (AnalogCircuit reg sq) =
     Inr \<lparr>circuit_is_constant =
            ((\<forall>w \<in> set (waveforms_of sq). individually_constant ev a w) \<and>
             (\<forall>w \<in> set (waveforms_of sq).
                \<forall>w' \<in> set (waveforms_of sq). duration w a = duration w' a)),
          effective_analog_circuit = AnalogCircuit reg (map_waveforms (folded ev a) sq)\<rparr>"
proof -
  from visit_waveforms_None [OF assms(2)] obtain st where
    st: "visit_waveforms ev a (True, None) (waveforms_of sq) = Inr st" and
    verdict: "fst st \<longleftrightarrow>
       (\<forall>w \<in> set (waveforms_of sq). individually_constant ev a w) \<and>
       (\<forall>w \<in> set (waveforms_of sq).
          \<forall>w' \<in> set (waveforms_of sq). duration w a = duration w' a)"
    by blast
  have d1: "distinct (map fst ([] @ sq))"
    using assms(1) by (simp add: distinct_keys_def)
  have d2: "\<forall>(pn, ps) \<in> set sq. distinct (map fst ps) \<and>
           (\<forall>(fn, fd) \<in> set ps. distinct (map fst fd))"
    using assms(1) by (simp add: distinct_keys_def)
  have "visit_sequence ev a (True, None) sq = Inr (st, map_waveforms (folded ev a) sq)"
    using visit_sequence_loop_eq [OF st d1 d2] by (simp add: visit_sequence_def)
  then show ?thesis
    using verdict by simp
qed

text \<open>
  A circuit with a constant and a ramping waveform of equal duration: the verdict is
  false, and both leaves are folded all the same.
\<close>

theorem emit_circuit_correct_witness:
  "emit_circuit eval_decimal []
     (AnalogCircuit ()
        [(rydberg,
          [(detuning, [(UniformModulation, Linear (Literal 1) (Literal 1) (Literal 2))]),
           (rabi_amplitude, [(UniformModulation, Linear (Literal 0) (Literal 1) (Literal 2))])])]) =
   Inr \<lparr>circuit_is_constant = False,
        effective_analog_circuit =
          AnalogCircuit ()
            [(rydberg,
              [(detuning, [(UniformModulation, Constant (Literal 1) (Literal 2))]),
               (rabi_amplitude, [(UniformModulation, Constant (Literal 1) (Literal 2))])])]\<rparr>"
  using emit_circuit_correct
    [of "[(rydberg,
          [(detuning, [(UniformModulation, Linear (Literal 1) (Literal 1) (Literal 2))]),
           (rabi_amplitude, [(UniformModulation, Linear (Literal 0) (Literal 1) (Literal 2))])])]"
        eval_decimal "[]" "()"]
  by (simp add: distinct_keys_def waveforms_of_def map_waveforms_def emit_def emit_result_def
      individually_constant_def folded_def)


section \<open>Properties of the parser\<close>

text \<open>
  Claim C2, as the code has it.  When a spatial node remains, \<open>read_address\<close> returns
  it; the field is reported exactly when the node's \<open>__parent__\<close> is a \<open>Detuning\<close>,
  \<open>RabiAmplitude\<close> or \<open>RabiPhase\<close>; and a coupling is reported when it is a
  \<open>Rydberg\<close> or \<open>Hyperfine\<close> found two levels above a Rabi field or directly above
  a \<open>Detuning\<close> field, and in no other case.
\<close>

theorem read_address_result:
  assumes "read_next is_spatial s = (Some i, s')"
    and "read_address s = Inr ((coupling, field, spatial), s'')"
  shows "spatial = Some i \<and> s'' = s' \<and>
     (field = (if parent (nodes s) i \<in> Some ` {Detuning, RabiAmplitude, RabiPhase}
               then parent (nodes s) i else None)) \<and>
     (coupling =
        (if field \<in> Some ` {RabiAmplitude, RabiPhase} \<and>
            parent (nodes s) (i - 2) \<in> Some ` {Rydberg, Hyperfine}
         then parent (nodes s) (i - 2)
         else if field = Some Detuning \<and>
            parent (nodes s) (i - 1) \<in> Some ` {Rydberg, Hyperfine}
         then parent (nodes s) (i - 1)
         else None))"
  using assms
  by (auto simp: read_address_def split: option.splits if_splits)

theorem read_address_result_witness:
  "read_address (create [ProgramStart [], Rydberg, Rabi, RabiAmplitude, Uniform]) =
     Inr ((Some Rydberg, Some RabiAmplitude, Some 4),
          \<lparr>nodes = [ProgramStart [], Rydberg, Rabi, RabiAmplitude, Uniform], curr = 5\<rparr>)"
proof -
  let ?b = "[ProgramStart [], Rydberg, Rabi, RabiAmplitude, Uniform]"
  have n: "read_next is_spatial (create ?b) = (Some 4, \<lparr>nodes = ?b, curr = 5\<rparr>)"
    by (simp add: read_next_def create_def)
  obtain c f sp s'' where r: "read_address (create ?b) = Inr ((c, f, sp), s'')"
    by (simp add: read_address_def read_next_def create_def parent_def)
  from read_address_result [OF n r] r show ?thesis
    by (simp add: parent_def create_def)
qed

text \<open>
  The claim as stated says that a \<open>Detuning\<close> field never reports a coupling.  For
  the chain \<open>start.rydberg.detuning.uniform\<close> the coupling \<open>Rydberg\<close> is reported.
\<close>

theorem read_address_detuning_coupling:
  "read_address (create [ProgramStart [], Rydberg, Detuning, Uniform]) =
     Inr ((Some Rydberg, Some Detuning, Some 3),
          \<lparr>nodes = [ProgramStart [], Rydberg, Detuning, Uniform], curr = 4\<rparr>)"
  by (simp add: read_address_def read_next_def create_def parent_def)




text \<open>
  The loop of \<open>read_sequence\<close> on a parser that has no \<open>coupling_name\<close> yet, when
  the first spatial node from the cursor on is not scoped by a field.
\<close>

lemma read_sequence_loop_unscoped:
  assumes "coupling_name self = None"
    and "k < length b"
    and "find_next is_spatial k (drop k b) = Some i"
    and "parent b i \<notin> Some ` {Detuning, RabiAmplitude, RabiPhase}"
  shows "read_sequence_loop self \<lparr>nodes = b, curr = k\<rparr> = Inl (AttributeError ''coupling_name'')"
proof -
  have n: "read_next is_spatial \<lparr>nodes = b, curr = k\<rparr> = (Some i, \<lparr>nodes = b, curr = Suc i\<rparr>)"
    using assms(3) by (simp add: read_next_def)
  have a: "read_address \<lparr>nodes = b, curr = k\<rparr> =
      Inr ((None, None, Some i), \<lparr>nodes = b, curr = Suc i\<rparr>)"
    using assms(4) by (auto simp: read_address_def n split: option.splits)
  have "read_sequence_step self \<lparr>nodes = b, curr = k\<rparr> = Inl (AttributeError ''coupling_name'')"
    using assms(1) by (simp add: read_sequence_step_def a update_names_def merge_drive_def)
  then show ?thesis
    using assms(2) by (subst read_sequence_loop.simps) simp
qed

text \<open>
  Claim C10.  On a fresh parser, a chain whose first drive is not scoped by a
  recognised field kind makes \<open>parse_sequence\<close> (scanning from the root), \<open>parse\<close>
  and \<open>parse_circuit\<close> (scanning after the register) raise \<open>AttributeError\<close> on
  \<open>coupling_name\<close>: nothing has assigned the sticky names, and no default stands in.
\<close>

theorem fresh_parser_unscoped_drive:
  assumes "find_next is_spatial k (drop k b) = Some i"
    and "parent b i \<notin> Some ` {Detuning, RabiAmplitude, RabiPhase}"
    and "k < length b"
    and "\<forall>sq. b ! k \<noteq> SequenceBuilder sq"
  shows "(k = 0 \<longrightarrow> parse_sequence fresh_Parser b = Inl (AttributeError ''coupling_name'')) \<and>
         (k = 1 \<longrightarrow> parse fresh_Parser b = Inl (AttributeError ''coupling_name'') \<and>
                     parse_circuit fresh_Parser b = Inl (AttributeError ''coupling_name''))"
proof -
  have l: "\<And>self. coupling_name self = None \<Longrightarrow>
      read_sequence_loop self \<lparr>nodes = b, curr = k\<rparr> = Inl (AttributeError ''coupling_name'')"
    using read_sequence_loop_unscoped [OF _ assms(3) assms(1) assms(2)] by simp
  have rs: "\<And>self. coupling_name self = None \<Longrightarrow> stream self = Some \<lparr>nodes = b, curr = k\<rparr> \<Longrightarrow>
      read_sequence self = Inl (AttributeError ''coupling_name'')"
    using assms(3) assms(4) l by (auto simp: read_sequence_def split: builder.splits)
  have p0: "k = 0 \<Longrightarrow> parse_sequence fresh_Parser b = Inl (AttributeError ''coupling_name'')"
    using rs [of "reset fresh_Parser b"]
    by (simp add: parse_sequence_def reset_def fresh_Parser_def create_def)
  have rr: "k = 1 \<Longrightarrow> read_register (reset fresh_Parser b) =
      Inr ((reset fresh_Parser b)\<lparr>stream := Some \<lparr>nodes = b, curr = 1\<rparr>,
            register := Some (AtomArrangement (b ! 0))\<rparr>)"
    using assms(3) by (auto simp: read_register_def reset_def create_def read_def)
  have p1: "k = 1 \<Longrightarrow> parse fresh_Parser b = Inl (AttributeError ''coupling_name'')"
    using rs [of "(reset fresh_Parser b)\<lparr>stream := Some \<lparr>nodes = b, curr = 1\<rparr>,
            register := Some (AtomArrangement (b ! 0))\<rparr>"] rr
    by (simp add: parse_def reset_def fresh_Parser_def)
  have p2: "k = 1 \<Longrightarrow> parse_circuit fresh_Parser b = Inl (AttributeError ''coupling_name'')"
    using rs [of "(reset fresh_Parser b)\<lparr>stream := Some \<lparr>nodes = b, curr = 1\<rparr>,
            register := Some (AtomArrangement (b ! 0))\<rparr>"] rr
    by (simp add: parse_circuit_def reset_def fresh_Parser_def)
  from p0 p1 p2 show ?thesis by blast
qed

theorem fresh_parser_unscoped_drive_witness:
  "parse_sequence fresh_Parser
     [ProgramStart [], Uniform, WaveformPrimitive (Linear (Literal 0) (Literal 1) (Literal 1))] =
     Inl (AttributeError ''coupling_name'') \<and>
   parse fresh_Parser
     [ProgramStart [], Uniform, WaveformPrimitive (Linear (Literal 0) (Literal 1) (Literal 1))] =
     Inl (AttributeError ''coupling_name'') \<and>
   parse_circuit fresh_Parser
     [ProgramStart [], Uniform, WaveformPrimitive (Linear (Literal 0) (Literal 1) (Literal 1))] =
     Inl (AttributeError ''coupling_name'')"
  using fresh_parser_unscoped_drive
      [of 0 "[ProgramStart [], Uniform, WaveformPrimitive (Linear (Literal 0) (Literal 1) (Literal 1))]" 1]
    fresh_parser_unscoped_drive
      [of 1 "[ProgramStart [], Uniform, WaveformPrimitive (Linear (Literal 0) (Literal 1) (Literal 1))]" 1]
  by (simp add: parent_def)

text \<open>
  One round of the loop of \<open>read_sequence\<close>: when the drive read at a spatial node
  has a key that the field of the current coupling and field name already holds, the
  \<open>Add\<close> of the waveform that was there and the new one is stored under that key.
\<close>

lemma merge_drive_adds:
  assumes "coupling_name self = Some cn"
    and "field_name self = Some fn"
    and "map_of (sequence self) cn = Some pulse"
    and "map_of pulse fn = Some field"
    and "map_of field sm = Some w0"
    and "read_drive self ns (Some i) = Inr [(sm, w1)]"
  shows "merge_drive self ns i =
           Inr (self\<lparr>sequence :=
                  AList.update cn (AList.update fn (AList.update sm (Add w0 w1) field) pulse)
                    (sequence self)\<rparr>) \<and>
         map_of (AList.update sm (Add w0 w1) field) sm = Some (Add w0 w1)"
  using assms by (simp add: merge_drive_def update_conv')



text \<open>
  Claim C1.  \<open>reset\<close> leaves \<open>coupling_name\<close> and \<open>field_name\<close> as they are, so a
  parse is not independent of the one before it: the chain whose only drive is not
  scoped by a field raises on a fresh parser, and yields a routine under the previous
  chain's coupling and field on a parser that has parsed another chain.
\<close>

lemma reset_keeps_sticky_names:
  "vector_node_names (reset self b) = [] \<and>
   coupling_name (reset self b) = coupling_name self \<and>
   field_name (reset self b) = field_name self"
  by (simp add: reset_def)

theorem parse_reuses_sticky_names:
  "parse fresh_Parser
     [ProgramStart [], Uniform, WaveformPrimitive (Linear (Literal 0) (Literal 1) (Literal 1))] =
     Inl (AttributeError ''coupling_name'') \<and>
   map_sum id fst
     (case parse fresh_Parser
         [ProgramStart [], Rydberg, Detuning, Uniform,
          WaveformPrimitive (Constant (Literal 1) (Literal 1))] of
        Inl e \<Rightarrow> Inl e
      | Inr (r, self) \<Rightarrow>
        parse self
          [ProgramStart [], Uniform,
           WaveformPrimitive (Linear (Literal 0) (Literal 1) (Literal 1))]) =
     Inr (Routine
            [ProgramStart [], Uniform,
             WaveformPrimitive (Linear (Literal 0) (Literal 1) (Literal 1))]
            (AnalogCircuit (AtomArrangement (ProgramStart []))
               [(rydberg, [(detuning,
                  [(UniformModulation, Linear (Literal 0) (Literal 1) (Literal 1))])])])
            (Params [] [[]] []))"
  by (simp add: parse_def reset_def fresh_Parser_def create_def read_register_def read_def
      read_sequence_def read_sequence_step_def read_address_def
      read_next_def parent_def update_names_def merge_drive_def read_drive_def
      read_waveform_def next_node_def read_pragmas_def make_circuit_def)

text \<open>
  The \<open>Args\<close> branch of the pragma pass: duplicated names are all reported, a name
  in \<open>vector_node_names\<close> is reported, and otherwise the list is recorded.
\<close>

lemma not_distinct_filter_mem:
  "\<not> distinct (filter (\<lambda>y. y = x) names) \<Longrightarrow> x \<in> set names"
  by (induction names) (auto split: if_splits)

lemma duplicates_set:
  "set (duplicates seen names) =
     {x \<in> set names. x \<in> set seen \<or> \<not> distinct (filter (\<lambda>y. y = x) names)}"
proof (induction names arbitrary: seen)
  case Nil
  then show ?case by simp
next
  case (Cons n names)
  show ?case
    by (auto simp: Cons.IH filter_empty_conv dest: not_distinct_filter_mem)
qed

lemma duplicates_empty_iff:
  "duplicates [] names = [] \<longleftrightarrow> distinct names"
proof -
  have "distinct names \<longleftrightarrow> (\<forall>x \<in> set names. distinct (filter (\<lambda>y. y = x) names))"
    by (induction names) (auto simp: filter_empty_conv)
  moreover have "duplicates [] names = [] \<longleftrightarrow> set (duplicates [] names) = {}" by simp
  ultimately show ?thesis unfolding duplicates_set by auto
qed

lemma args_duplicates_rejected:
  assumes "\<not> distinct names"
  shows "read_pragmas_loop self (Args names # rest) = Inl (DuplicateNames (duplicates [] names))"
  using assms by (simp add: duplicates_empty_iff Let_def)

lemma args_vector_names_rejected:
  assumes "distinct names" and "set names \<inter> set (vector_node_names self) \<noteq> {}"
  shows "read_pragmas_loop self (Args names # rest) =
     Inl (RunTimeVectors (filter (\<lambda>x. x \<in> set (vector_node_names self)) names))"
  using assms by (auto simp: duplicates_empty_iff Let_def filter_empty_conv)

lemma args_recorded:
  assumes "distinct names" and "set names \<inter> set (vector_node_names self) = {}"
  shows "read_pragmas_loop self (Args names # rest) =
     read_pragmas_loop (self\<lparr>order := names\<rparr>) rest"
  using assms by (auto simp: duplicates_empty_iff Let_def filter_empty_conv)

lemma args_duplicates_example:
  "read_pragmas_loop self [Args [''a'', ''b'', ''a'']] = Inl (DuplicateNames [''a''])"
  by simp

text \<open>
  Claim C9.  Nothing in the parser ever adds a name to \<open>vector_node_names\<close>, which
  \<open>reset\<close> empties, so the collision check cannot fire: a chain that scales by the
  run-time vector \<open>a\<close> and then declares the argument \<open>a\<close> parses, with
  \<open>args_list = [a]\<close>.
\<close>

theorem parse_args_scale_name_accepted:
  "map_sum id fst
     (parse fresh_Parser
        [ProgramStart [], Rydberg, Detuning, Scale_node (ScaleName ''a''),
         WaveformPrimitive (Constant (Literal 1) (Literal 1)), Args [''a'']]) =
   Inr (Routine
          [ProgramStart [], Rydberg, Detuning, Scale_node (ScaleName ''a''),
           WaveformPrimitive (Constant (Literal 1) (Literal 1)), Args [''a'']]
          (AnalogCircuit (AtomArrangement (ProgramStart []))
             [(rydberg, [(detuning,
                [(RunTimeVector (ScaleName ''a''), Constant (Literal 1) (Literal 1))])])])
          (Params [] [[]] [''a'']))"
  by (simp add: parse_def reset_def fresh_Parser_def create_def read_register_def read_def
      read_sequence_def read_sequence_step_def read_address_def
      read_next_def parent_def update_names_def merge_drive_def read_drive_def
      read_waveform_def next_node_def read_pragmas_def make_circuit_def)

end
